theory Spec2Isabelle
  imports Main
begin

section \<open>Documents and request bodies\<close>

text \<open>
  An identifier is the ObjectId that the driver generates when a document is constructed.
  ObjectIds are drawn from a process-wide counter, so they are modelled as naturals.
\<close>

type_synonym oid = nat

text \<open>
  Modelled from the spec: \<^verbatim>\<open>models/user.model.js\<close> is not among the sources. A User has
  an identifier, a name, an email and a password, all strings (spec, section 3); the
  handlers read and write exactly these paths.
\<close>

record user =
  user_id :: oid
  name :: string
  email :: string
  password :: string

text \<open>
  Modelled from the spec: \<^verbatim>\<open>models/flight.model.js\<close> is not among the sources. The
  eight paths are the ones \<^verbatim>\<open>flightRouter.post("/")\<close> destructures from the request
  body. Timestamps, seats and price are kept as integers; no handler computes with them.
\<close>

record flight_data =
  airline :: string
  flightNo :: string
  departure :: string
  arrival :: string
  departureTime :: int
  arrivalTime :: int
  seats :: int
  price :: int

record flight = flight_data +
  flight_id :: oid

text \<open>
  Modelled from the spec: \<^verbatim>\<open>models/booking.model.js\<close> is not among the sources. A
  Booking holds the identifier of a User and the identifier of a Flight.
\<close>

record booking =
  booking_id :: oid
  user :: oid
  flight :: oid

text \<open>
  An identifier as a request carries it, in the path or in the body: a string that nothing
  has validated.
\<close>

type_synonym raw_id = string

text \<open>
  Request bodies. A path that the JSON body does not carry is \<^verbatim>\<open>undefined\<close> in the
  handler and \<open>None\<close> here. The body of register carries all of its paths (the interface
  table of the spec); the bodies of the three PATCH routes carry any subset. The password
  of a login body is \<open>None\<close> when the body has no password or has one that is no string.
  The two identifiers of a booking-create body are the strings that the client sent.
\<close>

record register_body =
  reg_name :: string
  reg_email :: string
  reg_password :: string

record login_body =
  login_email :: string
  login_password :: "string option"

record user_update =
  upd_name :: "string option"
  upd_email :: "string option"
  upd_password :: "string option"

record flight_update =
  upd_airline :: "string option"
  upd_flightNo :: "string option"
  upd_departure :: "string option"
  upd_arrival :: "string option"
  upd_departureTime :: "int option"
  upd_arrivalTime :: "int option"
  upd_seats :: "int option"
  upd_price :: "int option"

record booking_body =
  body_user :: raw_id
  body_flight :: raw_id

record booking_update =
  upd_user :: "oid option"
  upd_flight :: "oid option"

section \<open>Responses\<close>

text \<open>
  What a handler can catch: a storage operation rejects, an identifier does not cast to
  an ObjectId, or \<^verbatim>\<open>bcrypt\<close> is called without a string.
\<close>

datatype error = StorageError | CastError | BcryptError

text \<open>\<^verbatim>\<open>jwt.sign(payload, secret, { expiresIn })\<close>: the claims and the key of the token.\<close>

record token =
  userId :: oid
  signing_key :: string
  expiresIn :: string

definition jwt_sign :: "oid \<Rightarrow> string \<Rightarrow> string \<Rightarrow> token" where
  "jwt_sign uid secret span = \<lparr>userId = uid, signing_key = secret, expiresIn = span\<rparr>"

record populated_booking =
  pb_id :: oid
  pb_user :: "user option"
  pb_flight :: "flight option"

text \<open>One constructor for each shape of JSON body that a handler sends.\<close>

datatype body =
    No_content
  | Message string
  | Error_object error
  | Users "user list"
  | User_saved string user
  | Logged_in string token
  | Flights "flight list"
  | Flight_added string flight
  | Flight_data flight
  | Updated_flight flight
  | Dashboard "populated_booking list"
  | Booked string booking

record response =
  status :: nat
  content :: body

text \<open>A body that is a JSON object with a \<^verbatim>\<open>message\<close> field and nothing else.\<close>

fun message_only :: "body \<Rightarrow> bool" where
  "message_only (Message m) = True"
| "message_only b = False"

section \<open>The persistence layer\<close>

text \<open>
  The three collections, in insertion order, the ObjectId counter of the process, and
  whether the connection opened by \<^verbatim>\<open>connectDB\<close> answers: every operation of a model
  rejects when it does not.
\<close>

record system =
  connected :: bool
  users :: "user list"
  flights :: "flight list"
  bookings :: "booking list"
  next_oid :: oid

text \<open>
  Mongoose casts the identifier of a query to an ObjectId before the query is sent, and
  the query rejects with a CastError when the string is not one. Which strings are
  ObjectIds is decided by the library: the cast is a parameter of the handlers,
  \<open>cast raw = None\<close> for a string that is no ObjectId.
\<close>

definition castObjectId :: "(raw_id \<Rightarrow> oid option) \<Rightarrow> raw_id \<Rightarrow> error + oid" where
  "castObjectId cast raw = (case cast raw of None \<Rightarrow> Inl CastError | Some i \<Rightarrow> Inr i)"

text \<open>\<^verbatim>\<open>new Model({...})\<close> draws the identifier of the document it constructs.\<close>

definition new_oid :: "system \<Rightarrow> oid \<times> system" where
  "new_oid s = (next_oid s, s\<lparr>next_oid := Suc (next_oid s)\<rparr>)"

fun delete_first :: "('d \<Rightarrow> bool) \<Rightarrow> 'd list \<Rightarrow> 'd list" where
  "delete_first P [] = []"
| "delete_first P (x # xs) = (if P x then xs else x # delete_first P xs)"

fun update_first :: "('d \<Rightarrow> bool) \<Rightarrow> ('d \<Rightarrow> 'd) \<Rightarrow> 'd list \<Rightarrow> 'd list" where
  "update_first P f [] = []"
| "update_first P f (x # xs) = (if P x then f x # xs else x # update_first P f xs)"

text \<open>\<^verbatim>\<open>Model.find()\<close>: every document of the collection.\<close>

definition Model_find :: "bool \<Rightarrow> 'd list \<Rightarrow> error + 'd list" where
  "Model_find up docs = (if up then Inr docs else Inl StorageError)"

text \<open>\<^verbatim>\<open>Model.findOne(filter)\<close>: the first document that matches, or null.\<close>

definition Model_findOne :: "bool \<Rightarrow> 'd list \<Rightarrow> ('d \<Rightarrow> bool) \<Rightarrow> error + 'd option" where
  "Model_findOne up docs P = (if up then Inr (List.find P docs) else Inl StorageError)"

text \<open>\<^verbatim>\<open>Model.findById(id)\<close>.\<close>

definition Model_findById :: "('d \<Rightarrow> oid) \<Rightarrow> bool \<Rightarrow> 'd list \<Rightarrow> oid \<Rightarrow> error + 'd option" where
  "Model_findById key up docs i = Model_findOne up docs (\<lambda>d. key d = i)"

text \<open>
  \<^verbatim>\<open>Model.findByIdAndDelete(id)\<close>: removes the document and returns it, or returns null
  and leaves the collection as it is.
\<close>

definition Model_findByIdAndDelete ::
  "('d \<Rightarrow> oid) \<Rightarrow> bool \<Rightarrow> 'd list \<Rightarrow> oid \<Rightarrow> error + ('d option \<times> 'd list)" where
  "Model_findByIdAndDelete key up docs i =
     (if up then Inr (List.find (\<lambda>d. key d = i) docs, delete_first (\<lambda>d. key d = i) docs)
      else Inl StorageError)"

text \<open>
  \<^verbatim>\<open>Model.findByIdAndUpdate(id, update, { new: true })\<close>: applies the update to the
  document and returns the updated document, or returns null and leaves the collection as
  it is.
\<close>

definition Model_findByIdAndUpdate ::
  "('d \<Rightarrow> oid) \<Rightarrow> bool \<Rightarrow> 'd list \<Rightarrow> oid \<Rightarrow> ('d \<Rightarrow> 'd) \<Rightarrow> error + ('d option \<times> 'd list)" where
  "Model_findByIdAndUpdate key up docs i f =
     (if up then
        Inr (map_option f (List.find (\<lambda>d. key d = i) docs),
             update_first (\<lambda>d. key d = i) f docs)
      else Inl StorageError)"

text \<open>\<^verbatim>\<open>doc.save()\<close> on a document that was just constructed: an insert.\<close>

definition save_new :: "bool \<Rightarrow> 'd list \<Rightarrow> 'd \<Rightarrow> error + 'd list" where
  "save_new up docs d = (if up then Inr (docs @ [d]) else Inl StorageError)"

text \<open>
  \<^verbatim>\<open>doc.save()\<close> on a document that was read from the collection: the stored document
  with its identifier takes the values of the one in memory.
\<close>

definition save_existing :: "('d \<Rightarrow> oid) \<Rightarrow> bool \<Rightarrow> 'd list \<Rightarrow> 'd \<Rightarrow> error + 'd list" where
  "save_existing key up docs d =
     (if up then Inr (update_first (\<lambda>x. key x = key d) (\<lambda>x. d) docs) else Inl StorageError)"

text \<open>
  An update document sets the paths it carries. A path whose value is \<^verbatim>\<open>undefined\<close> is
  dropped from the update before it is sent (Mongoose 6 and later), so the stored value of
  that path stays.
\<close>

definition set_path :: "'a option \<Rightarrow> 'a \<Rightarrow> 'a" where
  "set_path v old = (case v of None \<Rightarrow> old | Some x \<Rightarrow> x)"

definition apply_user_update :: "user_update \<Rightarrow> user \<Rightarrow> user" where
  "apply_user_update u d =
     d\<lparr>name := set_path (upd_name u) (name d),
       email := set_path (upd_email u) (email d),
       password := set_path (upd_password u) (password d)\<rparr>"

definition apply_flight_update :: "flight_update \<Rightarrow> flight \<Rightarrow> flight" where
  "apply_flight_update u d =
     d\<lparr>airline := set_path (upd_airline u) (airline d),
       flightNo := set_path (upd_flightNo u) (flightNo d),
       departure := set_path (upd_departure u) (departure d),
       arrival := set_path (upd_arrival u) (arrival d),
       departureTime := set_path (upd_departureTime u) (departureTime d),
       arrivalTime := set_path (upd_arrivalTime u) (arrivalTime d),
       seats := set_path (upd_seats u) (seats d),
       price := set_path (upd_price u) (price d)\<rparr>"

text \<open>\<^verbatim>\<open>Object.assign(booking, updatedBookingData)\<close>.\<close>

definition assign_booking :: "booking \<Rightarrow> booking_update \<Rightarrow> booking" where
  "assign_booking d u =
     d\<lparr>user := set_path (upd_user u) (user d),
       flight := set_path (upd_flight u) (flight d)\<rparr>"

text \<open>
  \<^verbatim>\<open>bcrypt\<close> is a library outside the repository: its two functions are parameters of
  the handlers that call them. \<open>bcrypt_hash p r\<close> is the salted hash that
  \<^verbatim>\<open>bcrypt.hash(p, r)\<close> resolves to, \<open>bcrypt_compare p h\<close> the verdict of
  \<^verbatim>\<open>bcrypt.compare(p, h)\<close> on two strings.
\<close>

record bcrypt =
  bcrypt_hash :: "string \<Rightarrow> nat \<Rightarrow> string"
  bcrypt_compare :: "string \<Rightarrow> string \<Rightarrow> bool"

section \<open>Handlers\<close>

text \<open>The \<^verbatim>\<open>catch\<close> branch that all handlers but one share.\<close>

text \<open>
  \<^verbatim>\<open>bcrypt.compare(password, hash)\<close> with the password as the body has it: the call
  throws when the password is missing or no string.
\<close>

definition compare_password :: "bcrypt \<Rightarrow> string option \<Rightarrow> string \<Rightarrow> error + bool" where
  "compare_password bc p h =
     (case p of None \<Rightarrow> Inl BcryptError | Some pw \<Rightarrow> Inr (bcrypt_compare bc pw h))"

definition internal_error :: "system \<Rightarrow> response \<times> system" where
  "internal_error s = (\<lparr>status = 500, content = Message ''Internal server error''\<rparr>, s)"

subsection \<open>user.route.js\<close>

text \<open>\<^verbatim>\<open>userRouter.get("/")\<close>\<close>

definition user_get :: "system \<Rightarrow> response \<times> system" where
  "user_get s =
     (case Model_find (connected s) (users s) of
        Inl e \<Rightarrow> internal_error s
      | Inr data \<Rightarrow> (\<lparr>status = 200, content = Users data\<rparr>, s))"

text \<open>\<^verbatim>\<open>userRouter.post("/register")\<close>\<close>

definition user_register :: "bcrypt \<Rightarrow> register_body \<Rightarrow> system \<Rightarrow> response \<times> system" where
  "user_register bc req s =
     (let hashPassword = bcrypt_hash bc (reg_password req) 5;
          (i, s1) = new_oid s;
          newUser = \<lparr>user_id = i, name = reg_name req, email = reg_email req,
                     password = hashPassword\<rparr>
      in case save_new (connected s1) (users s1) newUser of
           Inl e \<Rightarrow> (\<lparr>status = 500, content = Error_object e\<rparr>, s1)
         | Inr us \<Rightarrow> (\<lparr>status = 201, content = User_saved ''User saved'' newUser\<rparr>,
                       s1\<lparr>users := us\<rparr>))"

text \<open>\<^verbatim>\<open>userRouter.post("/login")\<close>\<close>

definition user_login :: "bcrypt \<Rightarrow> login_body \<Rightarrow> system \<Rightarrow> response \<times> system" where
  "user_login bc req s =
     (case Model_findOne (connected s) (users s) (\<lambda>d. email d = login_email req) of
        Inl e \<Rightarrow> internal_error s
      | Inr None \<Rightarrow> (\<lparr>status = 401, content = Message ''User not present''\<rparr>, s)
      | Inr (Some u) \<Rightarrow>
          (case compare_password bc (login_password req) (password u) of
             Inl e \<Rightarrow> internal_error s
           | Inr convertedPassword \<Rightarrow>
               (let tok = jwt_sign (user_id u) ''secret'' ''1h''
                in if convertedPassword
                   then (\<lparr>status = 200, content = Logged_in ''User logged in'' tok\<rparr>, s)
                   else (\<lparr>status = 401, content = Message ''password wrong''\<rparr>, s))))"

text \<open>\<^verbatim>\<open>userRouter.delete("/:id")\<close>\<close>

definition user_delete :: "(raw_id \<Rightarrow> oid option) \<Rightarrow> raw_id \<Rightarrow> system \<Rightarrow> response \<times> system" where
  "user_delete cast uid s =
     (case castObjectId cast uid of
        Inl e \<Rightarrow> internal_error s
      | Inr i \<Rightarrow>
     (case Model_findByIdAndDelete user_id (connected s) (users s) i of
        Inl e \<Rightarrow> internal_error s
      | Inr (deletedUser, us) \<Rightarrow>
          (case deletedUser of
             None \<Rightarrow> (\<lparr>status = 404, content = Message ''User not found''\<rparr>, s\<lparr>users := us\<rparr>)
           | Some d \<Rightarrow> (\<lparr>status = 204, content = No_content\<rparr>, s\<lparr>users := us\<rparr>))))"

text \<open>\<^verbatim>\<open>userRouter.patch("/:id")\<close>\<close>

definition user_patch ::
  "(raw_id \<Rightarrow> oid option) \<Rightarrow> raw_id \<Rightarrow> user_update \<Rightarrow> system \<Rightarrow> response \<times> system" where
  "user_patch cast uid req s =
     (case castObjectId cast uid of
        Inl e \<Rightarrow> internal_error s
      | Inr i \<Rightarrow>
     (case Model_findByIdAndUpdate user_id (connected s) (users s) i
             (apply_user_update req) of
        Inl e \<Rightarrow> internal_error s
      | Inr (updatedUser, us) \<Rightarrow>
          (case updatedUser of
             None \<Rightarrow> (\<lparr>status = 404, content = Message ''User not found''\<rparr>, s\<lparr>users := us\<rparr>)
           | Some d \<Rightarrow> (\<lparr>status = 204, content = No_content\<rparr>, s\<lparr>users := us\<rparr>))))"

subsection \<open>flight.route.js\<close>

text \<open>\<^verbatim>\<open>flightRouter.get("/")\<close>\<close>

definition flight_get_all :: "system \<Rightarrow> response \<times> system" where
  "flight_get_all s =
     (case Model_find (connected s) (flights s) of
        Inl e \<Rightarrow> internal_error s
      | Inr fs \<Rightarrow> (\<lparr>status = 200, content = Flights fs\<rparr>, s))"

text \<open>\<^verbatim>\<open>flightRouter.post("/")\<close>\<close>

definition flight_post :: "flight_data \<Rightarrow> system \<Rightarrow> response \<times> system" where
  "flight_post req s =
     (let (i, s1) = new_oid s;
          newFlight = \<lparr>airline = airline req, flightNo = flightNo req,
                       departure = departure req, arrival = arrival req,
                       departureTime = departureTime req, arrivalTime = arrivalTime req,
                       seats = seats req, price = price req, flight_id = i\<rparr>
      in case save_new (connected s1) (flights s1) newFlight of
           Inl e \<Rightarrow> internal_error s1
         | Inr fs \<Rightarrow> (\<lparr>status = 201, content = Flight_added ''Flight added'' newFlight\<rparr>,
                       s1\<lparr>flights := fs\<rparr>))"

text \<open>\<^verbatim>\<open>flightRouter.get("/:id")\<close>\<close>

definition flight_get :: "(raw_id \<Rightarrow> oid option) \<Rightarrow> raw_id \<Rightarrow> system \<Rightarrow> response \<times> system" where
  "flight_get cast flightId s =
     (case castObjectId cast flightId of
        Inl e \<Rightarrow> internal_error s
      | Inr i \<Rightarrow>
     (case Model_findById flight_id (connected s) (flights s) i of
        Inl e \<Rightarrow> internal_error s
      | Inr None \<Rightarrow> (\<lparr>status = 404, content = Message ''Flight not found''\<rparr>, s)
      | Inr (Some d) \<Rightarrow> (\<lparr>status = 200, content = Flight_data d\<rparr>, s)))"

text \<open>\<^verbatim>\<open>flightRouter.patch("/:id")\<close>\<close>

definition flight_patch ::
  "(raw_id \<Rightarrow> oid option) \<Rightarrow> raw_id \<Rightarrow> flight_update \<Rightarrow> system \<Rightarrow> response \<times> system" where
  "flight_patch cast flightId updatedFlightData s =
     (case castObjectId cast flightId of
        Inl e \<Rightarrow> internal_error s
      | Inr i \<Rightarrow>
     (case Model_findByIdAndUpdate flight_id (connected s) (flights s) i
             (apply_flight_update updatedFlightData) of
        Inl e \<Rightarrow> internal_error s
      | Inr (updatedFlight, fs) \<Rightarrow>
          (case updatedFlight of
             None \<Rightarrow> (\<lparr>status = 404, content = Message ''Flight not found''\<rparr>,
                       s\<lparr>flights := fs\<rparr>)
           | Some d \<Rightarrow> (\<lparr>status = 200, content = Updated_flight d\<rparr>, s\<lparr>flights := fs\<rparr>))))"

text \<open>\<^verbatim>\<open>flightRouter.delete("/:id")\<close>: the document that was found is not looked at.\<close>

definition flight_delete :: "(raw_id \<Rightarrow> oid option) \<Rightarrow> raw_id \<Rightarrow> system \<Rightarrow> response \<times> system" where
  "flight_delete cast flightId s =
     (case castObjectId cast flightId of
        Inl e \<Rightarrow> internal_error s
      | Inr i \<Rightarrow>
     (case Model_findByIdAndDelete flight_id (connected s) (flights s) i of
        Inl e \<Rightarrow> internal_error s
      | Inr (deleted, fs) \<Rightarrow>
          (\<lparr>status = 200, content = Message ''Flight Deleted''\<rparr>, s\<lparr>flights := fs\<rparr>)))"

subsection \<open>booking.route.js\<close>

text \<open>
  \<^verbatim>\<open>Promise.all\<close> over the promises of a list: the results in the order of the list, or
  the rejection of a promise that rejects.
\<close>

fun Promise_all :: "(error + 'a) list \<Rightarrow> error + 'a list" where
  "Promise_all [] = Inr []"
| "Promise_all (Inl e # rs) = Inl e"
| "Promise_all (Inr x # rs) =
     (case Promise_all rs of Inl e \<Rightarrow> Inl e | Inr xs \<Rightarrow> Inr (x # xs))"

text \<open>
  The callback of \<^verbatim>\<open>bookings.map\<close> in the dashboard: the user and the flight of the
  booking are looked up, and what each lookup answers, null included, is stored in the
  entry.
\<close>

definition populate :: "system \<Rightarrow> booking \<Rightarrow> error + populated_booking" where
  "populate s b =
     (case Model_findById user_id (connected s) (users s) (user b) of
        Inl e \<Rightarrow> Inl e
      | Inr u \<Rightarrow>
     (case Model_findById flight_id (connected s) (flights s) (flight b) of
        Inl e \<Rightarrow> Inl e
      | Inr f \<Rightarrow> Inr \<lparr>pb_id = booking_id b, pb_user = u, pb_flight = f\<rparr>))"

text \<open>\<^verbatim>\<open>bookingRouter.get("/dashboard")\<close>\<close>

definition booking_dashboard :: "system \<Rightarrow> response \<times> system" where
  "booking_dashboard s =
     (case Model_find (connected s) (bookings s) of
        Inl e \<Rightarrow> internal_error s
      | Inr bs \<Rightarrow>
     (case Promise_all (map (populate s) bs) of
        Inl e \<Rightarrow> internal_error s
      | Inr populatedBookings \<Rightarrow> (\<lparr>status = 200, content = Dashboard populatedBookings\<rparr>, s)))"

text \<open>
  \<^verbatim>\<open>bookingRouter.post("/")\<close>: both lookups are awaited before either result is tested,
  so a flight identifier that does not cast is caught before the user is tested. The new
  document holds the two identifiers of the body as the ObjectIds they cast to.
\<close>

definition booking_post ::
  "(raw_id \<Rightarrow> oid option) \<Rightarrow> booking_body \<Rightarrow> system \<Rightarrow> response \<times> system" where
  "booking_post cast req s =
     (case castObjectId cast (body_user req) of
        Inl e \<Rightarrow> internal_error s
      | Inr uid \<Rightarrow>
     (case Model_findById user_id (connected s) (users s) uid of
        Inl e \<Rightarrow> internal_error s
      | Inr u \<Rightarrow>
     (case castObjectId cast (body_flight req) of
        Inl e \<Rightarrow> internal_error s
      | Inr fid \<Rightarrow>
     (case Model_findById flight_id (connected s) (flights s) fid of
        Inl e \<Rightarrow> internal_error s
      | Inr f \<Rightarrow>
        if u = None then (\<lparr>status = 404, content = Message ''User  not found''\<rparr>, s)
        else if f = None then (\<lparr>status = 404, content = Message ''Flight not found''\<rparr>, s)
        else
          (let (i, s1) = new_oid s;
               newBooking = \<lparr>booking_id = i, user = uid, flight = fid\<rparr>
           in case save_new (connected s1) (bookings s1) newBooking of
                Inl e \<Rightarrow> internal_error s1
              | Inr bs \<Rightarrow> (\<lparr>status = 201, content = Booked ''Flight booked'' newBooking\<rparr>,
                            s1\<lparr>bookings := bs\<rparr>))))))"

text \<open>
  \<^verbatim>\<open>bookingRouter.patch("/dashboard/:id")\<close>, for a path identifier that is an ObjectId:
  \<open>bookingId\<close> is the ObjectId.
\<close>

definition booking_patch :: "oid \<Rightarrow> booking_update \<Rightarrow> system \<Rightarrow> response \<times> system" where
  "booking_patch bookingId updatedBookingData s =
     (case Model_findById booking_id (connected s) (bookings s) bookingId of
        Inl e \<Rightarrow> internal_error s
      | Inr None \<Rightarrow> (\<lparr>status = 404, content = Message ''Booking not found''\<rparr>, s)
      | Inr (Some b) \<Rightarrow>
          (case save_existing booking_id (connected s) (bookings s)
                  (assign_booking b updatedBookingData) of
             Inl e \<Rightarrow> internal_error s
           | Inr bs \<Rightarrow> (\<lparr>status = 204, content = No_content\<rparr>, s\<lparr>bookings := bs\<rparr>)))"

text \<open>\<^verbatim>\<open>bookingRouter.delete("/:id")\<close>\<close>

definition booking_delete :: "(raw_id \<Rightarrow> oid option) \<Rightarrow> raw_id \<Rightarrow> system \<Rightarrow> response \<times> system" where
  "booking_delete cast bookingId s =
     (case castObjectId cast bookingId of
        Inl e \<Rightarrow> internal_error s
      | Inr i \<Rightarrow>
     (case Model_findByIdAndDelete booking_id (connected s) (bookings s) i of
        Inl e \<Rightarrow> internal_error s
      | Inr (deleted, bs) \<Rightarrow>
          (case deleted of
             None \<Rightarrow> (\<lparr>status = 404, content = Message ''Booking not found''\<rparr>,
                       s\<lparr>bookings := bs\<rparr>)
           | Some d \<Rightarrow> (\<lparr>status = 202, content = Message ''Booking deleted''\<rparr>,
                         s\<lparr>bookings := bs\<rparr>))))"

section \<open>Unique identifiers\<close>

text \<open>
  The invariant of the store that the spec states for identifiers: within a collection no
  two documents share an identifier, and every identifier in use was drawn from the
  counter already.
\<close>

definition ids_below :: "('d \<Rightarrow> oid) \<Rightarrow> 'd list \<Rightarrow> oid \<Rightarrow> bool" where
  "ids_below key docs n = (distinct (map key docs) \<and> list_all (\<lambda>d. key d < n) docs)"

definition unique_ids :: "system \<Rightarrow> bool" where
  "unique_ids s =
     (ids_below user_id (users s) (next_oid s) \<and>
      ids_below flight_id (flights s) (next_oid s) \<and>
      ids_below booking_id (bookings s) (next_oid s))"

section \<open>Example data\<close>

text \<open>
  A stand-in for the library, used where a theorem is run on concrete input: the hash of a
  password is a prefix followed by the password reversed, and a password verifies against
  exactly that string.
\<close>

definition toy_bcrypt :: bcrypt where
  "toy_bcrypt = \<lparr>bcrypt_hash = (\<lambda>p r. ''$2b$'' @ rev p), bcrypt_compare = (\<lambda>p h. h = ''$2b$'' @ rev p)\<rparr>"

text \<open>
  A stand-in for the cast: a string is an ObjectId when it is 24 hexadecimal digits, and
  the ObjectId is the number it writes.
\<close>

definition hex_digit :: "char \<Rightarrow> nat option" where
  "hex_digit c = map_of
     [(CHR ''0'', 0), (CHR ''1'', 1), (CHR ''2'', 2), (CHR ''3'', 3), (CHR ''4'', 4),
      (CHR ''5'', 5), (CHR ''6'', 6), (CHR ''7'', 7), (CHR ''8'', 8), (CHR ''9'', 9),
      (CHR ''a'', 10), (CHR ''b'', 11), (CHR ''c'', 12), (CHR ''d'', 13), (CHR ''e'', 14),
      (CHR ''f'', 15), (CHR ''A'', 10), (CHR ''B'', 11), (CHR ''C'', 12), (CHR ''D'', 13),
      (CHR ''E'', 14), (CHR ''F'', 15)] c"

fun hex_value :: "nat \<Rightarrow> string \<Rightarrow> nat option" where
  "hex_value acc [] = Some acc"
| "hex_value acc (c # cs) =
     (case hex_digit c of None \<Rightarrow> None | Some d \<Rightarrow> hex_value (16 * acc + d) cs)"

definition hex_cast :: "raw_id \<Rightarrow> oid option" where
  "hex_cast raw = (if length raw = 24 then hex_value 0 raw else None)"

text \<open>
  A connected system with one user, one flight and two bookings; the second booking
  refers to a user that is no longer stored.
\<close>

definition alice :: user where
  "alice = \<lparr>user_id = 0, name = ''Alice'', email = ''alice@example.com'', password = ''$2b$terces''\<rparr>"

definition ai101 :: flight where
  "ai101 = \<lparr>airline = ''Air India'', flightNo = ''AI101'', departure = ''DEL'', arrival = ''BOM'',
      departureTime = 1000, arrivalTime = 2000, seats = 180, price = 4500, flight_id = 1\<rparr>"

definition demo :: system where
  "demo = \<lparr>connected = True, users = [alice], flights = [ai101],
     bookings = [\<lparr>booking_id = 2, user = 0, flight = 1\<rparr>, \<lparr>booking_id = 3, user = 7, flight = 1\<rparr>],
     next_oid = 4\<rparr>"

text \<open>The identifiers of the example as strings, one of them in use nowhere.\<close>

definition alice_key :: raw_id where
  "alice_key = ''000000000000000000000000''"

definition ai101_key :: raw_id where
  "ai101_key = ''000000000000000000000001''"

definition unused_key :: raw_id where
  "unused_key = ''000000000000000000000009''"

section \<open>Facts about the persistence layer\<close>

subsection \<open>The example system\<close>

lemma demo_connected: "connected demo"
  by (simp add: demo_def)

lemma demo_users: "users demo = [alice]"
  by (simp add: demo_def)

lemma demo_user_ids: "user_id ` set (users demo) = {0}"
  by (simp add: demo_def alice_def)

lemma demo_flight_ids: "flight_id ` set (flights demo) = {1}"
  by (simp add: demo_def ai101_def)

lemma demo_next_oid: "next_oid demo = 4"
  by (simp add: demo_def)

lemma hex_cast_alice_key: "hex_cast alice_key = Some 0"
  by (simp add: hex_cast_def hex_digit_def alice_key_def)

lemma hex_cast_ai101_key: "hex_cast ai101_key = Some 1"
  by (simp add: hex_cast_def hex_digit_def ai101_key_def)

lemma hex_cast_unused_key: "hex_cast unused_key = Some 9"
  by (simp add: hex_cast_def hex_digit_def unused_key_def)

lemma hex_cast_abc: "hex_cast ''abc'' = None"
  by (simp add: hex_cast_def)

lemma hex_cast_nobody: "hex_cast ''nobody'' = None"
  by (simp add: hex_cast_def)

subsection \<open>Lookups, deletions and updates\<close>

lemma find_None_image: "(List.find (\<lambda>d. key d = i) docs = None) = (i \<notin> key ` set docs)"
  by (auto simp: find_None_iff)

lemma find_Some_key: "List.find (\<lambda>d. key d = i) docs = Some d \<Longrightarrow> key d = i \<and> d \<in> set docs"
  by (induction docs) (auto split: if_splits)

lemma delete_first_absent: "List.find P docs = None \<Longrightarrow> delete_first P docs = docs"
  by (induction docs) (auto split: if_splits)

lemma update_first_absent: "List.find P docs = None \<Longrightarrow> update_first P f docs = docs"
  by (induction docs) (auto split: if_splits)

lemma update_first_same: "List.find P docs = Some d \<Longrightarrow> f d = d \<Longrightarrow> update_first P f docs = docs"
  by (induction docs) (auto split: if_splits)

lemma update_first_in_place:
  "List.find P docs = Some d \<Longrightarrow>
   \<exists>k<length docs. docs ! k = d \<and> (\<forall>j<k. \<not> P (docs ! j)) \<and> update_first P f docs = docs[k := f d]"
proof (induction docs)
  case Nil
  then show ?case by simp
next
  case (Cons x xs)
  show ?case
  proof (cases "P x")
    case True
    with Cons.prems have "x = d" by simp
    with True show ?thesis by (intro exI[of _ 0]) simp
  next
    case False
    with Cons.prems have "List.find P xs = Some d" by simp
    from Cons.IH[OF this] obtain k where k: "k < length xs" "xs ! k = d"
      "\<forall>j<k. \<not> P (xs ! j)" "update_first P f xs = xs[k := f d]" by blast
    have "\<forall>j<Suc k. \<not> P ((x # xs) ! j)"
      using False k(3) by (auto simp: less_Suc_eq_0_disj)
    with False k show ?thesis by (intro exI[of _ "Suc k"]) simp
  qed
qed

lemma delete_first_subset: "set (delete_first P docs) \<subseteq> set docs"
  by (induction docs) auto

lemma delete_first_removes:
  "distinct (map key docs) \<Longrightarrow> i \<notin> key ` set (delete_first (\<lambda>d. key d = i) docs)"
proof (induction docs)
  case Nil
  then show ?case by simp
next
  case (Cons x xs)
  then show ?case by (cases "key x = i") auto
qed

lemma Promise_all_resolved: "Promise_all (map Inr xs) = Inr xs"
  by (induction xs) auto

lemma populate_connected:
  "connected s \<Longrightarrow> populate s b =
     Inr \<lparr>pb_id = booking_id b,
          pb_user = List.find (\<lambda>d. user_id d = user b) (users s),
          pb_flight = List.find (\<lambda>d. flight_id d = flight b) (flights s)\<rparr>"
  by (simp add: populate_def Model_findById_def Model_findOne_def)

section \<open>Every handler keeps identifiers unique\<close>

lemma ids_below_keys:
  "ids_below key docs n = (distinct (map key docs) \<and> (\<forall>i \<in> set (map key docs). i < n))"
  by (auto simp: ids_below_def list_all_iff)

lemma ids_below_Suc: "ids_below key docs n \<Longrightarrow> ids_below key docs (Suc n)"
  by (auto simp: ids_below_keys)

lemma ids_below_insert:
  "ids_below key docs n \<Longrightarrow> key d = n \<Longrightarrow> ids_below key (docs @ [d]) (Suc n)"
  by (auto simp: ids_below_keys)

lemma distinct_delete_first:
  "distinct (map key docs) \<Longrightarrow> distinct (map key (delete_first P docs))"
proof (induction docs)
  case Nil
  then show ?case by simp
next
  case (Cons x xs)
  then show ?case using delete_first_subset [of P xs] by auto
qed

lemma ids_below_delete: "ids_below key docs n \<Longrightarrow> ids_below key (delete_first P docs) n"
  using delete_first_subset [of P docs]
  by (auto simp: ids_below_def list_all_iff distinct_delete_first)

lemma keys_update_first:
  "(\<And>x. P x \<Longrightarrow> key (f x) = key x) \<Longrightarrow> map key (update_first P f docs) = map key docs"
  by (induction docs) auto

lemma ids_below_update:
  "(\<And>x. P x \<Longrightarrow> key (f x) = key x) \<Longrightarrow> ids_below key docs n \<Longrightarrow>
   ids_below key (update_first P f docs) n"
  by (simp add: ids_below_keys keys_update_first del: set_map)

lemma unique_ids_user_get: "unique_ids s \<Longrightarrow> unique_ids (snd (user_get s))"
  by (simp add: user_get_def internal_error_def split: sum.splits)

lemma unique_ids_user_register: "unique_ids s \<Longrightarrow> unique_ids (snd (user_register bc req s))"
  by (auto simp: user_register_def new_oid_def save_new_def Let_def unique_ids_def
      ids_below_Suc ids_below_insert)

lemma unique_ids_user_login: "unique_ids s \<Longrightarrow> unique_ids (snd (user_login bc req s))"
  by (simp add: user_login_def internal_error_def Let_def split: sum.splits option.splits)

lemma unique_ids_user_delete: "unique_ids s \<Longrightarrow> unique_ids (snd (user_delete cast uid s))"
  by (auto simp: user_delete_def castObjectId_def Model_findByIdAndDelete_def internal_error_def
      unique_ids_def ids_below_delete split: option.splits)

lemma unique_ids_user_patch:
  "unique_ids s \<Longrightarrow> unique_ids (snd (user_patch cast uid req s))"
  by (auto simp: user_patch_def castObjectId_def Model_findByIdAndUpdate_def internal_error_def
      unique_ids_def apply_user_update_def ids_below_update split: option.splits)

lemma unique_ids_flight_get_all: "unique_ids s \<Longrightarrow> unique_ids (snd (flight_get_all s))"
  by (simp add: flight_get_all_def internal_error_def split: sum.splits)

lemma unique_ids_flight_post: "unique_ids s \<Longrightarrow> unique_ids (snd (flight_post req s))"
  by (auto simp: flight_post_def new_oid_def save_new_def Let_def internal_error_def
      unique_ids_def ids_below_Suc ids_below_insert)

lemma unique_ids_flight_get:
  "unique_ids s \<Longrightarrow> unique_ids (snd (flight_get cast flightId s))"
  by (simp add: flight_get_def internal_error_def split: sum.splits option.splits)

lemma unique_ids_flight_patch:
  "unique_ids s \<Longrightarrow> unique_ids (snd (flight_patch cast flightId req s))"
  by (auto simp: flight_patch_def castObjectId_def Model_findByIdAndUpdate_def internal_error_def unique_ids_def
      apply_flight_update_def ids_below_update split: option.splits)

lemma unique_ids_flight_delete:
  "unique_ids s \<Longrightarrow> unique_ids (snd (flight_delete cast flightId s))"
  by (auto simp: flight_delete_def castObjectId_def Model_findByIdAndDelete_def
      internal_error_def unique_ids_def ids_below_delete split: option.splits)

lemma unique_ids_booking_dashboard: "unique_ids s \<Longrightarrow> unique_ids (snd (booking_dashboard s))"
  by (simp add: booking_dashboard_def internal_error_def split: sum.splits)

lemma unique_ids_booking_post:
  "unique_ids s \<Longrightarrow> unique_ids (snd (booking_post cast req s))"
  by (auto simp: booking_post_def new_oid_def save_new_def Let_def internal_error_def
      unique_ids_def ids_below_Suc ids_below_insert split: sum.splits)

lemma unique_ids_booking_patch:
  assumes u: "unique_ids s"
  shows "unique_ids (snd (booking_patch bookingId req s))"
proof (cases "connected s")
  case False
  with u show ?thesis
    by (simp add: booking_patch_def Model_findById_def Model_findOne_def internal_error_def)
next
  case True
  show ?thesis
  proof (cases "List.find (\<lambda>d. booking_id d = bookingId) (bookings s)")
    case None
    with True u show ?thesis
      by (simp add: booking_patch_def Model_findById_def Model_findOne_def)
  next
    case (Some b)
    let ?b = "assign_booking b req"
    from u have "ids_below booking_id (bookings s) (next_oid s)"
      by (simp add: unique_ids_def)
    then have "ids_below booking_id
        (update_first (\<lambda>x. booking_id x = booking_id ?b) (\<lambda>x. ?b) (bookings s)) (next_oid s)"
      by (rule ids_below_update [rotated]) simp
    with True Some u show ?thesis
      by (simp add: booking_patch_def Model_findById_def Model_findOne_def save_existing_def
          unique_ids_def)
  qed
qed

lemma unique_ids_booking_delete:
  "unique_ids s \<Longrightarrow> unique_ids (snd (booking_delete cast bookingId s))"
  by (auto simp: booking_delete_def castObjectId_def Model_findByIdAndDelete_def internal_error_def unique_ids_def
      ids_below_delete split: option.splits)

lemma unique_ids_demo: "unique_ids demo"
  by (simp add: unique_ids_def ids_below_def demo_def alice_def ai101_def)


lemma unique_ids_flights: "unique_ids s \<Longrightarrow> distinct (map flight_id (flights s))"
  by (simp add: unique_ids_def ids_below_def)

section \<open>Booking creation\<close>

text \<open>
  C1, as the handler has it. While the storage answers, a booking-create request whose two
  identifiers are ObjectIds is settled by the two references. When the user identifier
  resolves to no stored User, the response is 404 with the message that names the user,
  whatever the flight identifier resolves to, and the system is unchanged. When the user
  resolves and the flight identifier does not, the response is 404 with the message that
  names the flight, and the system is unchanged. When both resolve, the response is 201
  and the new Booking, with a fresh identifier and the two references of the request, is
  appended to the stored bookings. A request with an identifier that is no ObjectId is
  answered 500 and changes nothing. So the stored bookings change if and only if both
  identifiers are ObjectIds of stored records.
\<close>

theorem booking_post_checks_references:
  assumes "connected s"
  shows "(cast (body_user req) = None \<or> cast (body_flight req) = None \<longrightarrow>
            booking_post cast req s =
              (\<lparr>status = 500, content = Message ''Internal server error''\<rparr>, s))
       \<and> (\<forall>uid fid. cast (body_user req) = Some uid \<and> cast (body_flight req) = Some fid \<longrightarrow>
            (uid \<notin> user_id ` set (users s) \<longrightarrow>
               booking_post cast req s =
                 (\<lparr>status = 404, content = Message ''User  not found''\<rparr>, s))
          \<and> (uid \<in> user_id ` set (users s) \<and> fid \<notin> flight_id ` set (flights s) \<longrightarrow>
               booking_post cast req s =
                 (\<lparr>status = 404, content = Message ''Flight not found''\<rparr>, s))
          \<and> (uid \<in> user_id ` set (users s) \<and> fid \<in> flight_id ` set (flights s) \<longrightarrow>
               (let newBooking = \<lparr>booking_id = next_oid s, user = uid, flight = fid\<rparr>
                in booking_post cast req s =
                     (\<lparr>status = 201, content = Booked ''Flight booked'' newBooking\<rparr>,
                      s\<lparr>next_oid := Suc (next_oid s),
                        bookings := bookings s @ [newBooking]\<rparr>))))
       \<and> (bookings (snd (booking_post cast req s)) \<noteq> bookings s \<longleftrightarrow>
            (\<exists>uid fid. cast (body_user req) = Some uid \<and> uid \<in> user_id ` set (users s) \<and>
                       cast (body_flight req) = Some fid \<and> fid \<in> flight_id ` set (flights s)))"
proof (cases "cast (body_user req)")
  case None
  with assms show ?thesis
    by (simp add: booking_post_def castObjectId_def internal_error_def)
next
  case user_cast: (Some uid)
  show ?thesis
  proof (cases "cast (body_flight req)")
    case None
    with assms user_cast show ?thesis
      by (simp add: booking_post_def castObjectId_def internal_error_def Model_findById_def
          Model_findOne_def)
  next
    case flight_cast: (Some fid)
    let ?u = "List.find (\<lambda>d. user_id d = uid) (users s)"
    let ?f = "List.find (\<lambda>d. flight_id d = fid) (flights s)"
    have u: "(?u = None) = (uid \<notin> user_id ` set (users s))"
      by (rule find_None_image)
    have f: "(?f = None) = (fid \<notin> flight_id ` set (flights s))"
      by (rule find_None_image)
    show ?thesis
    proof (cases "?u = None")
      case True
      with assms user_cast flight_cast have "booking_post cast req s =
          (\<lparr>status = 404, content = Message ''User  not found''\<rparr>, s)"
        by (simp add: booking_post_def castObjectId_def Model_findById_def Model_findOne_def)
      with True u user_cast flight_cast show ?thesis by simp
    next
      case user_found: False
      show ?thesis
      proof (cases "?f = None")
        case True
        with assms user_found user_cast flight_cast have "booking_post cast req s =
            (\<lparr>status = 404, content = Message ''Flight not found''\<rparr>, s)"
          by (simp add: booking_post_def castObjectId_def Model_findById_def Model_findOne_def)
        with True user_found u f user_cast flight_cast show ?thesis by simp
      next
        case False
        with assms user_found user_cast flight_cast have "booking_post cast req s =
            (\<lparr>status = 201,
              content = Booked ''Flight booked''
                \<lparr>booking_id = next_oid s, user = uid, flight = fid\<rparr>\<rparr>,
             s\<lparr>next_oid := Suc (next_oid s),
               bookings := bookings s @
                 [\<lparr>booking_id = next_oid s, user = uid, flight = fid\<rparr>]\<rparr>)"
          by (simp add: booking_post_def castObjectId_def Model_findById_def Model_findOne_def
              new_oid_def save_new_def Let_def)
        with False user_found u f user_cast flight_cast show ?thesis by (simp add: Let_def)
      qed
    qed
  qed
qed

theorem booking_post_checks_references_witness:
  "connected demo
   \<and> booking_post hex_cast \<lparr>body_user = ''nobody'', body_flight = ai101_key\<rparr> demo =
       (\<lparr>status = 500, content = Message ''Internal server error''\<rparr>, demo)
   \<and> booking_post hex_cast \<lparr>body_user = unused_key, body_flight = unused_key\<rparr> demo =
       (\<lparr>status = 404, content = Message ''User  not found''\<rparr>, demo)
   \<and> booking_post hex_cast \<lparr>body_user = alice_key, body_flight = unused_key\<rparr> demo =
       (\<lparr>status = 404, content = Message ''Flight not found''\<rparr>, demo)
   \<and> bookings (snd (booking_post hex_cast \<lparr>body_user = alice_key, body_flight = ai101_key\<rparr>
                       demo)) =
       bookings demo @ [\<lparr>booking_id = 4, user = 0, flight = 1\<rparr>]"
  using booking_post_checks_references
      [of demo hex_cast "\<lparr>body_user = ''nobody'', body_flight = ai101_key\<rparr>"]
    booking_post_checks_references
      [of demo hex_cast "\<lparr>body_user = unused_key, body_flight = unused_key\<rparr>"]
    booking_post_checks_references
      [of demo hex_cast "\<lparr>body_user = alice_key, body_flight = unused_key\<rparr>"]
    booking_post_checks_references
      [of demo hex_cast "\<lparr>body_user = alice_key, body_flight = ai101_key\<rparr>"]
  by (simp add: demo_connected demo_user_ids demo_flight_ids demo_next_oid Let_def
      hex_cast_alice_key hex_cast_ai101_key hex_cast_unused_key hex_cast_nobody)

text \<open>
  C1 as it was stated fails on two requests. A user identifier that is no ObjectId
  resolves to no stored User, and the request is answered 500, not 404. A user identifier
  that is an ObjectId of no stored User, sent with a flight identifier that is no
  ObjectId, is answered 500 as well: the flight lookup is awaited before the user is
  tested.
\<close>

theorem booking_post_malformed_identifier:
  "hex_cast ''nobody'' = None
   \<and> booking_post hex_cast \<lparr>body_user = ''nobody'', body_flight = ai101_key\<rparr> demo =
       (\<lparr>status = 500, content = Message ''Internal server error''\<rparr>, demo)
   \<and> hex_cast unused_key = Some 9 \<and> 9 \<notin> user_id ` set (users demo)
   \<and> booking_post hex_cast \<lparr>body_user = unused_key, body_flight = ''abc''\<rparr> demo =
       (\<lparr>status = 500, content = Message ''Internal server error''\<rparr>, demo)"
  by (simp add: booking_post_def castObjectId_def internal_error_def Model_findById_def
      Model_findOne_def demo_connected demo_user_ids hex_cast_nobody hex_cast_unused_key
      hex_cast_abc hex_cast_ai101_key demo_users alice_def)

section \<open>Login\<close>

text \<open>
  C2, as the handler has it. While the storage answers, a login request has four outcomes.
  When no stored User has the email of the request, the response is 401 with the message
  \<^verbatim>\<open>User not present\<close>, whatever the password is. When \<^verbatim>\<open>findOne\<close> finds a user and
  the password of the request is a string that does not verify against the stored
  password, the response is 401 with the message \<^verbatim>\<open>password wrong\<close>. When it is a string
  that verifies, the response is 200 and carries the token signed over the identifier of
  that user with the expiry \<^verbatim>\<open>1h\<close>. When a user is found and the request has no string
  as password, the response is 500. No outcome changes the system.
\<close>

theorem user_login_outcomes:
  assumes "connected s"
  shows "(login_email req \<notin> email ` set (users s) \<longrightarrow>
            user_login bc req s = (\<lparr>status = 401, content = Message ''User not present''\<rparr>, s))
       \<and> (\<forall>u. List.find (\<lambda>d. email d = login_email req) (users s) = Some u \<longrightarrow>
            (\<forall>pw. login_password req = Some pw \<longrightarrow>
               (\<not> bcrypt_compare bc pw (password u) \<longrightarrow>
                  user_login bc req s =
                    (\<lparr>status = 401, content = Message ''password wrong''\<rparr>, s))
             \<and> (bcrypt_compare bc pw (password u) \<longrightarrow>
                  user_login bc req s =
                    (\<lparr>status = 200,
                      content = Logged_in ''User logged in''
                        \<lparr>userId = user_id u, signing_key = ''secret'', expiresIn = ''1h''\<rparr>\<rparr>,
                     s)))
          \<and> (login_password req = None \<longrightarrow>
                user_login bc req s =
                  (\<lparr>status = 500, content = Message ''Internal server error''\<rparr>, s)))"
proof -
  have "(List.find (\<lambda>d. email d = login_email req) (users s) = None) =
        (login_email req \<notin> email ` set (users s))"
    by (rule find_None_image)
  with assms show ?thesis
    by (auto simp: user_login_def Model_findOne_def jwt_sign_def compare_password_def
        internal_error_def)
qed

theorem user_login_outcomes_witness:
  "connected demo
   \<and> user_login toy_bcrypt
        \<lparr>login_email = ''bob@example.com'', login_password = Some ''secret''\<rparr> demo =
       (\<lparr>status = 401, content = Message ''User not present''\<rparr>, demo)
   \<and> user_login toy_bcrypt
        \<lparr>login_email = ''alice@example.com'', login_password = Some ''guess''\<rparr> demo =
       (\<lparr>status = 401, content = Message ''password wrong''\<rparr>, demo)
   \<and> user_login toy_bcrypt
        \<lparr>login_email = ''alice@example.com'', login_password = Some ''secret''\<rparr> demo =
       (\<lparr>status = 200,
         content = Logged_in ''User logged in''
           \<lparr>userId = 0, signing_key = ''secret'', expiresIn = ''1h''\<rparr>\<rparr>, demo)
   \<and> user_login toy_bcrypt
        \<lparr>login_email = ''alice@example.com'', login_password = None\<rparr> demo =
       (\<lparr>status = 500, content = Message ''Internal server error''\<rparr>, demo)"
  using user_login_outcomes
      [of demo "\<lparr>login_email = ''bob@example.com'', login_password = Some ''secret''\<rparr>"
          toy_bcrypt]
    user_login_outcomes
      [of demo "\<lparr>login_email = ''alice@example.com'', login_password = Some ''guess''\<rparr>"
          toy_bcrypt]
    user_login_outcomes
      [of demo "\<lparr>login_email = ''alice@example.com'', login_password = Some ''secret''\<rparr>"
          toy_bcrypt]
    user_login_outcomes
      [of demo "\<lparr>login_email = ''alice@example.com'', login_password = None\<rparr>" toy_bcrypt]
  by (simp add: demo_connected demo_users alice_def toy_bcrypt_def)

text \<open>
  C2 as it was stated fails on a request that has the email of a stored user and no
  password: a user is found, \<^verbatim>\<open>bcrypt.compare\<close> throws, and the response is 500, neither
  401 nor 200.
\<close>

theorem user_login_missing_password:
  "alice \<in> set (users demo) \<and> email alice = ''alice@example.com''
   \<and> user_login toy_bcrypt
        \<lparr>login_email = ''alice@example.com'', login_password = None\<rparr> demo =
       (\<lparr>status = 500, content = Message ''Internal server error''\<rparr>, demo)"
  by (simp add: user_login_def Model_findOne_def compare_password_def internal_error_def
      demo_connected demo_users alice_def)

section \<open>The dashboard\<close>

lemma Promise_all_populate:
  "connected s \<Longrightarrow> Promise_all (map (populate s) bs) =
     Inr (map (\<lambda>b. \<lparr>pb_id = booking_id b,
                     pb_user = List.find (\<lambda>d. user_id d = user b) (users s),
                     pb_flight = List.find (\<lambda>d. flight_id d = flight b) (flights s)\<rparr>) bs)"
  by (induction bs) (simp_all add: populate_connected)

lemma find_cases:
  "(case List.find (\<lambda>d. key d = i) docs of
      None \<Rightarrow> i \<notin> key ` set docs
    | Some d \<Rightarrow> d \<in> set docs \<and> key d = i)"
proof (cases "List.find (\<lambda>d. key d = i) docs")
  case None
  then have "i \<notin> key ` set docs" by (simp add: find_None_image)
  with None show ?thesis by simp
next
  case (Some d)
  then show ?thesis using find_Some_key [of key i docs d] by simp
qed

text \<open>
  C3. While the storage answers, the dashboard listing answers 200 for every content of
  the three collections and leaves the system as it is. Its body has one entry for each
  stored Booking, in the stored order and under the identifier of the booking. The user
  field of an entry is null exactly when the user reference of the booking resolves to no
  stored User, and is otherwise a stored User with the referenced identifier; the same
  holds for the flight field. A dangling reference never fails the listing.
\<close>

theorem booking_dashboard_joins:
  assumes "connected s"
  shows "\<exists>entries. booking_dashboard s = (\<lparr>status = 200, content = Dashboard entries\<rparr>, s)
       \<and> map pb_id entries = map booking_id (bookings s)
       \<and> (\<forall>k<length (bookings s).
            (case pb_user (entries ! k) of
               None \<Rightarrow> user (bookings s ! k) \<notin> user_id ` set (users s)
             | Some u \<Rightarrow> u \<in> set (users s) \<and> user_id u = user (bookings s ! k))
          \<and> (case pb_flight (entries ! k) of
               None \<Rightarrow> flight (bookings s ! k) \<notin> flight_id ` set (flights s)
             | Some f \<Rightarrow> f \<in> set (flights s) \<and> flight_id f = flight (bookings s ! k)))"
proof -
  let ?join = "\<lambda>b. \<lparr>pb_id = booking_id b,
                     pb_user = List.find (\<lambda>d. user_id d = user b) (users s),
                     pb_flight = List.find (\<lambda>d. flight_id d = flight b) (flights s)\<rparr>"
  let ?entries = "map ?join (bookings s)"
  from assms have "booking_dashboard s = (\<lparr>status = 200, content = Dashboard ?entries\<rparr>, s)"
    by (simp add: booking_dashboard_def Model_find_def Promise_all_populate)
  moreover have "map pb_id ?entries = map booking_id (bookings s)"
    by simp
  moreover have "\<forall>k<length (bookings s).
            (case pb_user (?entries ! k) of
               None \<Rightarrow> user (bookings s ! k) \<notin> user_id ` set (users s)
             | Some u \<Rightarrow> u \<in> set (users s) \<and> user_id u = user (bookings s ! k))
          \<and> (case pb_flight (?entries ! k) of
               None \<Rightarrow> flight (bookings s ! k) \<notin> flight_id ` set (flights s)
             | Some f \<Rightarrow> f \<in> set (flights s) \<and> flight_id f = flight (bookings s ! k))"
    by (simp add: find_cases)
  ultimately show ?thesis by blast
qed

theorem booking_dashboard_joins_witness:
  "connected demo
   \<and> (\<exists>entries. booking_dashboard demo = (\<lparr>status = 200, content = Dashboard entries\<rparr>, demo)
         \<and> map pb_id entries = [2, 3]
         \<and> pb_user (entries ! 1) = None)"
proof -
  have c: "connected demo" by (rule demo_connected)
  have bs: "bookings demo = [\<lparr>booking_id = 2, user = 0, flight = 1\<rparr>,
                              \<lparr>booking_id = 3, user = 7, flight = 1\<rparr>]"
    by (simp add: demo_def)
  from booking_dashboard_joins [OF c] obtain entries where
    e: "booking_dashboard demo = (\<lparr>status = 200, content = Dashboard entries\<rparr>, demo)"
       "map pb_id entries = map booking_id (bookings demo)"
       "\<forall>k<length (bookings demo).
          (case pb_user (entries ! k) of
             None \<Rightarrow> user (bookings demo ! k) \<notin> user_id ` set (users demo)
           | Some u \<Rightarrow> u \<in> set (users demo) \<and> user_id u = user (bookings demo ! k))
        \<and> (case pb_flight (entries ! k) of
             None \<Rightarrow> flight (bookings demo ! k) \<notin> flight_id ` set (flights demo)
           | Some f \<Rightarrow> f \<in> set (flights demo) \<and> flight_id f = flight (bookings demo ! k))"
    by blast
  have "1 < length (bookings demo)" by (simp add: bs)
  with e(3) have "case pb_user (entries ! 1) of
             None \<Rightarrow> user (bookings demo ! 1) \<notin> user_id ` set (users demo)
           | Some u \<Rightarrow> u \<in> set (users demo) \<and> user_id u = user (bookings demo ! 1)"
    by blast
  then have "pb_user (entries ! 1) = None"
    by (cases "pb_user (entries ! 1)") (simp_all add: bs demo_users alice_def)
  with c e(1) e(2) show ?thesis by (simp add: bs)
qed

section \<open>Deleting\<close>

text \<open>
  C4, as the handlers have it. While the storage answers, deleting a flight answers 200
  with the message \<^verbatim>\<open>Flight Deleted\<close> for every identifier that is an ObjectId: when it
  resolves to no stored Flight the system stays as it is, and the stored flights having
  distinct identifiers, no stored Flight has the identifier afterwards. Deleting a flight
  never answers 404. Deleting a user identifier that is an ObjectId of no stored User
  answers 404 and changes nothing; so does deleting a booking identifier that is an
  ObjectId of no stored Booking. An identifier that is no ObjectId is answered 500 by all
  three routes, and nothing changes.
\<close>

theorem flight_delete_idempotent:
  assumes "connected s"
  shows "(\<forall>i. cast fl = Some i \<longrightarrow>
            fst (flight_delete cast fl s) =
              \<lparr>status = 200, content = Message ''Flight Deleted''\<rparr>
          \<and> (i \<notin> flight_id ` set (flights s) \<longrightarrow> snd (flight_delete cast fl s) = s)
          \<and> (distinct (map flight_id (flights s)) \<longrightarrow>
               i \<notin> flight_id ` set (flights (snd (flight_delete cast fl s)))))
       \<and> status (fst (flight_delete cast fl s)) \<noteq> 404
       \<and> (\<forall>j. cast us = Some j \<and> j \<notin> user_id ` set (users s) \<longrightarrow>
            user_delete cast us s = (\<lparr>status = 404, content = Message ''User not found''\<rparr>, s))
       \<and> (\<forall>k. cast bk = Some k \<and> k \<notin> booking_id ` set (bookings s) \<longrightarrow>
            booking_delete cast bk s =
              (\<lparr>status = 404, content = Message ''Booking not found''\<rparr>, s))
       \<and> (cast fl = None \<longrightarrow>
            flight_delete cast fl s =
              (\<lparr>status = 500, content = Message ''Internal server error''\<rparr>, s))
       \<and> (cast us = None \<longrightarrow>
            user_delete cast us s =
              (\<lparr>status = 500, content = Message ''Internal server error''\<rparr>, s))
       \<and> (cast bk = None \<longrightarrow>
            booking_delete cast bk s =
              (\<lparr>status = 500, content = Message ''Internal server error''\<rparr>, s))"
proof -
  have ok: "fst (flight_delete cast fl s) =
      \<lparr>status = 200, content = Message ''Flight Deleted''\<rparr>" if "cast fl = Some i" for i
    using assms that by (simp add: flight_delete_def castObjectId_def Model_findByIdAndDelete_def)
  have same: "snd (flight_delete cast fl s) = s"
    if "cast fl = Some i" "i \<notin> flight_id ` set (flights s)" for i
  proof -
    from that(2) have "List.find (\<lambda>d. flight_id d = i) (flights s) = None"
      by (simp add: find_None_image)
    with assms that(1) show ?thesis
      by (simp add: flight_delete_def castObjectId_def Model_findByIdAndDelete_def
          delete_first_absent)
  qed
  have gone: "i \<notin> flight_id ` set (flights (snd (flight_delete cast fl s)))"
    if "cast fl = Some i" "distinct (map flight_id (flights s))" for i
  proof -
    from assms that(1) have "flights (snd (flight_delete cast fl s)) =
        delete_first (\<lambda>d. flight_id d = i) (flights s)"
      by (simp add: flight_delete_def castObjectId_def Model_findByIdAndDelete_def)
    with that(2) show ?thesis
      using delete_first_removes [of flight_id "flights s" i] by simp
  qed
  have never: "status (fst (flight_delete cast fl s)) \<noteq> 404"
    by (simp add: flight_delete_def castObjectId_def Model_findByIdAndDelete_def
        internal_error_def split: option.splits)
  have user: "user_delete cast us s =
      (\<lparr>status = 404, content = Message ''User not found''\<rparr>, s)"
    if "cast us = Some j" "j \<notin> user_id ` set (users s)" for j
  proof -
    from that(2) have "List.find (\<lambda>d. user_id d = j) (users s) = None"
      by (simp add: find_None_image)
    with assms that(1) show ?thesis
      by (simp add: user_delete_def castObjectId_def Model_findByIdAndDelete_def
          delete_first_absent)
  qed
  have booking: "booking_delete cast bk s =
      (\<lparr>status = 404, content = Message ''Booking not found''\<rparr>, s)"
    if "cast bk = Some k" "k \<notin> booking_id ` set (bookings s)" for k
  proof -
    from that(2) have "List.find (\<lambda>d. booking_id d = k) (bookings s) = None"
      by (simp add: find_None_image)
    with assms that(1) show ?thesis
      by (simp add: booking_delete_def castObjectId_def Model_findByIdAndDelete_def
          delete_first_absent)
  qed
  have malformed:
    "cast fl = None \<longrightarrow> flight_delete cast fl s =
       (\<lparr>status = 500, content = Message ''Internal server error''\<rparr>, s)"
    "cast us = None \<longrightarrow> user_delete cast us s =
       (\<lparr>status = 500, content = Message ''Internal server error''\<rparr>, s)"
    "cast bk = None \<longrightarrow> booking_delete cast bk s =
       (\<lparr>status = 500, content = Message ''Internal server error''\<rparr>, s)"
    by (simp_all add: flight_delete_def user_delete_def booking_delete_def castObjectId_def
        internal_error_def)
  from ok same gone never user booking malformed show ?thesis by blast
qed

theorem flight_delete_idempotent_witness:
  "connected demo \<and> distinct (map flight_id (flights demo))
   \<and> flight_delete hex_cast unused_key demo =
       (\<lparr>status = 200, content = Message ''Flight Deleted''\<rparr>, demo)
   \<and> fst (flight_delete hex_cast ai101_key demo) =
       \<lparr>status = 200, content = Message ''Flight Deleted''\<rparr>
   \<and> 1 \<notin> flight_id ` set (flights (snd (flight_delete hex_cast ai101_key demo)))
   \<and> user_delete hex_cast unused_key demo =
       (\<lparr>status = 404, content = Message ''User not found''\<rparr>, demo)
   \<and> booking_delete hex_cast unused_key demo =
       (\<lparr>status = 404, content = Message ''Booking not found''\<rparr>, demo)
   \<and> flight_delete hex_cast ''abc'' demo =
       (\<lparr>status = 500, content = Message ''Internal server error''\<rparr>, demo)
   \<and> user_delete hex_cast ''abc'' demo =
       (\<lparr>status = 500, content = Message ''Internal server error''\<rparr>, demo)
   \<and> booking_delete hex_cast ''abc'' demo =
       (\<lparr>status = 500, content = Message ''Internal server error''\<rparr>, demo)"
proof -
  have c: "connected demo" by (rule demo_connected)
  have d: "distinct (map flight_id (flights demo))" by (simp add: demo_def)
  have b: "booking_id ` set (bookings demo) = {2, 3}" by (auto simp: demo_def)
  have absent: "flight_delete hex_cast unused_key demo =
      (\<lparr>status = 200, content = Message ''Flight Deleted''\<rparr>, demo)"
    using flight_delete_idempotent [OF c, of hex_cast unused_key unused_key unused_key]
    by (simp add: demo_flight_ids hex_cast_unused_key prod_eq_iff)
  from c d absent
    flight_delete_idempotent [OF c, of hex_cast unused_key unused_key unused_key]
    flight_delete_idempotent [OF c, of hex_cast ai101_key unused_key unused_key]
    flight_delete_idempotent [OF c, of hex_cast "''abc''" "''abc''" "''abc''"]
  show ?thesis
    by (simp add: demo_user_ids b hex_cast_unused_key hex_cast_ai101_key hex_cast_abc)
qed

text \<open>
  C4 as it was stated fails on an identifier that is no ObjectId: deleting the flight
  \<^verbatim>\<open>abc\<close> answers 500 while the storage answers, not 200.
\<close>

theorem flight_delete_malformed_identifier:
  "connected demo \<and> hex_cast ''abc'' = None
   \<and> flight_delete hex_cast ''abc'' demo =
       (\<lparr>status = 500, content = Message ''Internal server error''\<rparr>, demo)
   \<and> user_delete hex_cast ''abc'' demo =
       (\<lparr>status = 500, content = Message ''Internal server error''\<rparr>, demo)"
  by (simp add: flight_delete_def user_delete_def castObjectId_def internal_error_def
      demo_connected hex_cast_abc)

section \<open>Updating\<close>

text \<open>
  C5, as the handler has it. While the storage answers, a user update whose identifier is
  an ObjectId of no stored User answers 404 and changes nothing, and one whose identifier
  is no ObjectId answers 500 and changes nothing. When the identifier resolves, the
  response is 204 and
  the stored record is replaced, at its position in the collection, by the record in which
  each of name, email and password has the value of the request where the request carries
  one and its stored value where it does not; its identifier, every other user, the
  flights and the bookings stay as they were.
\<close>

theorem user_patch_frame:
  assumes "connected s"
  shows "(cast raw = None \<longrightarrow>
            user_patch cast raw req s =
              (\<lparr>status = 500, content = Message ''Internal server error''\<rparr>, s))
       \<and> (\<forall>uid. cast raw = Some uid \<and> uid \<notin> user_id ` set (users s) \<longrightarrow>
            user_patch cast raw req s =
              (\<lparr>status = 404, content = Message ''User not found''\<rparr>, s))
       \<and> (\<forall>uid d. cast raw = Some uid \<and>
                   List.find (\<lambda>x. user_id x = uid) (users s) = Some d \<longrightarrow>
            (\<exists>k<length (users s). users s ! k = d \<and>
               user_patch cast raw req s =
                 (\<lparr>status = 204, content = No_content\<rparr>,
                  s\<lparr>users := (users s)
                     [k := d\<lparr>name := (case upd_name req of None \<Rightarrow> name d | Some v \<Rightarrow> v),
                              email := (case upd_email req of None \<Rightarrow> email d | Some v \<Rightarrow> v),
                              password := (case upd_password req of
                                             None \<Rightarrow> password d | Some v \<Rightarrow> v)\<rparr>]\<rparr>)))"
proof (intro conjI impI allI)
  assume "cast raw = None"
  then show "user_patch cast raw req s =
      (\<lparr>status = 500, content = Message ''Internal server error''\<rparr>, s)"
    by (simp add: user_patch_def castObjectId_def internal_error_def)
next
  fix uid
  assume "cast raw = Some uid \<and> uid \<notin> user_id ` set (users s)"
  then have c: "cast raw = Some uid"
    and "List.find (\<lambda>x. user_id x = uid) (users s) = None"
    by (simp_all add: find_None_image)
  with assms show "user_patch cast raw req s =
      (\<lparr>status = 404, content = Message ''User not found''\<rparr>, s)"
    by (simp add: user_patch_def castObjectId_def Model_findByIdAndUpdate_def
        update_first_absent)
next
  fix uid d
  assume "cast raw = Some uid \<and> List.find (\<lambda>x. user_id x = uid) (users s) = Some d"
  then have c: "cast raw = Some uid"
    and found: "List.find (\<lambda>x. user_id x = uid) (users s) = Some d"
    by simp_all
  from update_first_in_place [OF found, of "apply_user_update req"]
  obtain k where k: "k < length (users s)" "users s ! k = d"
    "update_first (\<lambda>x. user_id x = uid) (apply_user_update req) (users s) =
       (users s)[k := apply_user_update req d]"
    by blast
  from assms c found k(3) have "user_patch cast raw req s =
      (\<lparr>status = 204, content = No_content\<rparr>,
       s\<lparr>users := (users s)[k := apply_user_update req d]\<rparr>)"
    by (simp add: user_patch_def castObjectId_def Model_findByIdAndUpdate_def)
  with k(1,2) show "\<exists>k<length (users s). users s ! k = d \<and>
               user_patch cast raw req s =
                 (\<lparr>status = 204, content = No_content\<rparr>,
                  s\<lparr>users := (users s)
                     [k := d\<lparr>name := (case upd_name req of None \<Rightarrow> name d | Some v \<Rightarrow> v),
                              email := (case upd_email req of None \<Rightarrow> email d | Some v \<Rightarrow> v),
                              password := (case upd_password req of
                                             None \<Rightarrow> password d | Some v \<Rightarrow> v)\<rparr>]\<rparr>)"
    by (auto simp: apply_user_update_def set_path_def)
qed

theorem user_patch_frame_witness:
  "connected demo
   \<and> user_patch hex_cast ''abc''
        \<lparr>upd_name = Some ''Al'', upd_email = None, upd_password = None\<rparr> demo =
       (\<lparr>status = 500, content = Message ''Internal server error''\<rparr>, demo)
   \<and> user_patch hex_cast unused_key
        \<lparr>upd_name = Some ''Al'', upd_email = None, upd_password = None\<rparr> demo =
       (\<lparr>status = 404, content = Message ''User not found''\<rparr>, demo)
   \<and> user_patch hex_cast alice_key
        \<lparr>upd_name = Some ''Al'', upd_email = None, upd_password = None\<rparr> demo =
       (\<lparr>status = 204, content = No_content\<rparr>,
        demo\<lparr>users := [\<lparr>user_id = 0, name = ''Al'', email = ''alice@example.com'',
                          password = ''$2b$terces''\<rparr>]\<rparr>)"
proof -
  let ?req = "\<lparr>upd_name = Some ''Al'', upd_email = None, upd_password = None\<rparr>"
  have c: "connected demo" by (rule demo_connected)
  have f: "List.find (\<lambda>x. user_id x = 0) (users demo) = Some alice"
    by (simp add: demo_users alice_def)
  from user_patch_frame [OF c, of hex_cast "''abc''" ?req]
  have malformed: "user_patch hex_cast ''abc'' ?req demo =
      (\<lparr>status = 500, content = Message ''Internal server error''\<rparr>, demo)"
    by (simp add: hex_cast_abc)
  from user_patch_frame [OF c, of hex_cast unused_key ?req]
  have absent: "user_patch hex_cast unused_key ?req demo =
      (\<lparr>status = 404, content = Message ''User not found''\<rparr>, demo)"
    by (simp add: demo_user_ids hex_cast_unused_key)
  from user_patch_frame [OF c, of hex_cast alice_key ?req] f
  have "user_patch hex_cast alice_key ?req demo =
      (\<lparr>status = 204, content = No_content\<rparr>,
       demo\<lparr>users := [\<lparr>user_id = 0, name = ''Al'', email = ''alice@example.com'',
                          password = ''$2b$terces''\<rparr>]\<rparr>)"
    by (simp add: demo_users alice_def hex_cast_alice_key)
  with c malformed absent show ?thesis by simp
qed

text \<open>
  C5 as it was stated fails on an identifier that is no ObjectId: it resolves to no
  stored User, and the update is answered 500, not 404.
\<close>

theorem user_patch_malformed_identifier:
  "connected demo \<and> hex_cast ''abc'' = None
   \<and> user_patch hex_cast ''abc''
        \<lparr>upd_name = Some ''Al'', upd_email = None, upd_password = None\<rparr> demo =
       (\<lparr>status = 500, content = Message ''Internal server error''\<rparr>, demo)"
  by (simp add: user_patch_def castObjectId_def internal_error_def demo_connected hex_cast_abc)

text \<open>
  C8, as the handler has it. While the storage answers, a flight update whose identifier
  is an ObjectId of no stored Flight answers 404 and changes nothing, and one whose
  identifier is no ObjectId answers 500 and changes nothing. When the identifier
  resolves, each of the eight
  paths of the stored record takes the value of the request where the request carries one
  and keeps its stored value where it does not; the record keeps its identifier and its
  position, the response is 200 with the updated record, and nothing else changes.
\<close>

theorem flight_patch_frame:
  assumes "connected s"
  shows "(cast raw = None \<longrightarrow>
            flight_patch cast raw req s =
              (\<lparr>status = 500, content = Message ''Internal server error''\<rparr>, s))
       \<and> (\<forall>flightId. cast raw = Some flightId \<and> flightId \<notin> flight_id ` set (flights s) \<longrightarrow>
            flight_patch cast raw req s =
              (\<lparr>status = 404, content = Message ''Flight not found''\<rparr>, s))
       \<and> (\<forall>flightId d. cast raw = Some flightId \<and>
                   List.find (\<lambda>x. flight_id x = flightId) (flights s) = Some d \<longrightarrow>
            (\<exists>k<length (flights s). flights s ! k = d \<and>
               (let d' = d\<lparr>airline := (case upd_airline req of None \<Rightarrow> airline d | Some v \<Rightarrow> v),
                            flightNo := (case upd_flightNo req of
                                           None \<Rightarrow> flightNo d | Some v \<Rightarrow> v),
                            departure := (case upd_departure req of
                                            None \<Rightarrow> departure d | Some v \<Rightarrow> v),
                            arrival := (case upd_arrival req of None \<Rightarrow> arrival d | Some v \<Rightarrow> v),
                            departureTime := (case upd_departureTime req of
                                                None \<Rightarrow> departureTime d | Some v \<Rightarrow> v),
                            arrivalTime := (case upd_arrivalTime req of
                                              None \<Rightarrow> arrivalTime d | Some v \<Rightarrow> v),
                            seats := (case upd_seats req of None \<Rightarrow> seats d | Some v \<Rightarrow> v),
                            price := (case upd_price req of None \<Rightarrow> price d | Some v \<Rightarrow> v)\<rparr>
                in flight_patch cast raw req s =
                     (\<lparr>status = 200, content = Updated_flight d'\<rparr>,
                      s\<lparr>flights := (flights s)[k := d']\<rparr>))))"
proof (intro conjI impI allI)
  assume "cast raw = None"
  then show "flight_patch cast raw req s =
      (\<lparr>status = 500, content = Message ''Internal server error''\<rparr>, s)"
    by (simp add: flight_patch_def castObjectId_def internal_error_def)
next
  fix flightId
  assume "cast raw = Some flightId \<and> flightId \<notin> flight_id ` set (flights s)"
  then have c: "cast raw = Some flightId"
    and "List.find (\<lambda>x. flight_id x = flightId) (flights s) = None"
    by (simp_all add: find_None_image)
  with assms show "flight_patch cast raw req s =
      (\<lparr>status = 404, content = Message ''Flight not found''\<rparr>, s)"
    by (simp add: flight_patch_def castObjectId_def Model_findByIdAndUpdate_def
        update_first_absent)
next
  fix flightId d
  assume "cast raw = Some flightId \<and>
          List.find (\<lambda>x. flight_id x = flightId) (flights s) = Some d"
  then have c: "cast raw = Some flightId"
    and found: "List.find (\<lambda>x. flight_id x = flightId) (flights s) = Some d"
    by simp_all
  from update_first_in_place [OF found, of "apply_flight_update req"]
  obtain k where k: "k < length (flights s)" "flights s ! k = d"
    "update_first (\<lambda>x. flight_id x = flightId) (apply_flight_update req) (flights s) =
       (flights s)[k := apply_flight_update req d]"
    by blast
  from assms c found k(3) have "flight_patch cast raw req s =
      (\<lparr>status = 200, content = Updated_flight (apply_flight_update req d)\<rparr>,
       s\<lparr>flights := (flights s)[k := apply_flight_update req d]\<rparr>)"
    by (simp add: flight_patch_def castObjectId_def Model_findByIdAndUpdate_def)
  with k(1,2) show "\<exists>k<length (flights s). flights s ! k = d \<and>
               (let d' = d\<lparr>airline := (case upd_airline req of None \<Rightarrow> airline d | Some v \<Rightarrow> v),
                            flightNo := (case upd_flightNo req of
                                           None \<Rightarrow> flightNo d | Some v \<Rightarrow> v),
                            departure := (case upd_departure req of
                                            None \<Rightarrow> departure d | Some v \<Rightarrow> v),
                            arrival := (case upd_arrival req of None \<Rightarrow> arrival d | Some v \<Rightarrow> v),
                            departureTime := (case upd_departureTime req of
                                                None \<Rightarrow> departureTime d | Some v \<Rightarrow> v),
                            arrivalTime := (case upd_arrivalTime req of
                                              None \<Rightarrow> arrivalTime d | Some v \<Rightarrow> v),
                            seats := (case upd_seats req of None \<Rightarrow> seats d | Some v \<Rightarrow> v),
                            price := (case upd_price req of None \<Rightarrow> price d | Some v \<Rightarrow> v)\<rparr>
                in flight_patch cast raw req s =
                     (\<lparr>status = 200, content = Updated_flight d'\<rparr>,
                      s\<lparr>flights := (flights s)[k := d']\<rparr>))"
    unfolding Let_def apply_flight_update_def set_path_def by blast
qed

theorem flight_patch_frame_witness:
  "connected demo
   \<and> flight_patch hex_cast ''abc'' \<lparr>upd_airline = None, upd_flightNo = None,
         upd_departure = None, upd_arrival = None, upd_departureTime = None,
         upd_arrivalTime = None, upd_seats = Some 150, upd_price = None\<rparr> demo =
       (\<lparr>status = 500, content = Message ''Internal server error''\<rparr>, demo)
   \<and> flight_patch hex_cast unused_key \<lparr>upd_airline = None, upd_flightNo = None,
         upd_departure = None, upd_arrival = None, upd_departureTime = None,
         upd_arrivalTime = None, upd_seats = Some 150, upd_price = None\<rparr> demo =
       (\<lparr>status = 404, content = Message ''Flight not found''\<rparr>, demo)
   \<and> flight_patch hex_cast ai101_key \<lparr>upd_airline = None, upd_flightNo = None, upd_departure = None,
         upd_arrival = None, upd_departureTime = None, upd_arrivalTime = None,
         upd_seats = Some 150, upd_price = None\<rparr> demo =
       (\<lparr>status = 200, content = Updated_flight (ai101\<lparr>seats := 150\<rparr>)\<rparr>,
        demo\<lparr>flights := [ai101\<lparr>seats := 150\<rparr>]\<rparr>)"
proof -
  let ?req = "\<lparr>upd_airline = None, upd_flightNo = None, upd_departure = None,
         upd_arrival = None, upd_departureTime = None, upd_arrivalTime = None,
         upd_seats = Some 150, upd_price = None\<rparr>"
  have c: "connected demo" by (rule demo_connected)
  have fs: "flights demo = [ai101]" by (simp add: demo_def)
  have f: "List.find (\<lambda>x. flight_id x = 1) (flights demo) = Some ai101"
    by (simp add: fs ai101_def)
  from flight_patch_frame [OF c, of hex_cast "''abc''" ?req]
  have malformed: "flight_patch hex_cast ''abc'' ?req demo =
      (\<lparr>status = 500, content = Message ''Internal server error''\<rparr>, demo)"
    by (simp add: hex_cast_abc)
  from flight_patch_frame [OF c, of hex_cast unused_key ?req]
  have absent: "flight_patch hex_cast unused_key ?req demo =
      (\<lparr>status = 404, content = Message ''Flight not found''\<rparr>, demo)"
    by (simp add: demo_flight_ids hex_cast_unused_key)
  from flight_patch_frame [OF c, of hex_cast ai101_key ?req] f
  have "flight_patch hex_cast ai101_key ?req demo =
      (\<lparr>status = 200, content = Updated_flight (ai101\<lparr>seats := 150\<rparr>)\<rparr>,
        demo\<lparr>flights := [ai101\<lparr>seats := 150\<rparr>]\<rparr>)"
    by (simp add: fs Let_def hex_cast_ai101_key)
  with c malformed absent show ?thesis by simp
qed

text \<open>
  C8 as it was stated fails on an identifier that is no ObjectId: it resolves to no
  stored Flight, and the update is answered 500, not 404.
\<close>

theorem flight_patch_malformed_identifier:
  "connected demo \<and> hex_cast ''abc'' = None
   \<and> flight_patch hex_cast ''abc'' \<lparr>upd_airline = None, upd_flightNo = None,
         upd_departure = None, upd_arrival = None, upd_departureTime = None,
         upd_arrivalTime = None, upd_seats = Some 150, upd_price = None\<rparr> demo =
       (\<lparr>status = 500, content = Message ''Internal server error''\<rparr>, demo)"
  by (simp add: flight_patch_def castObjectId_def internal_error_def demo_connected
      hex_cast_abc)

text \<open>
  C10. While the storage answers, a booking update with an empty body on the identifier of
  a stored Booking answers 204 and leaves the whole system, the booking with its
  identifier and its two references included, as it was.
\<close>

theorem booking_patch_empty_body:
  assumes "connected s" and "bookingId \<in> booking_id ` set (bookings s)"
  shows "booking_patch bookingId \<lparr>upd_user = None, upd_flight = None\<rparr> s =
           (\<lparr>status = 204, content = No_content\<rparr>, s)"
proof -
  from assms(2) obtain b where
    b: "List.find (\<lambda>d. booking_id d = bookingId) (bookings s) = Some b"
    using find_None_image [of booking_id bookingId "bookings s"] by auto
  have same: "assign_booking b \<lparr>upd_user = None, upd_flight = None\<rparr> = b"
    by (simp add: assign_booking_def set_path_def)
  from b have "booking_id b = bookingId"
    using find_Some_key [of booking_id bookingId "bookings s" b] by simp
  with b have "update_first (\<lambda>x. booking_id x = booking_id b) (\<lambda>x. b) (bookings s) = bookings s"
    by (simp add: update_first_same)
  with assms(1) b same show ?thesis
    by (simp add: booking_patch_def Model_findById_def Model_findOne_def save_existing_def)
qed

theorem booking_patch_empty_body_witness:
  "connected demo \<and> 2 \<in> booking_id ` set (bookings demo)
   \<and> booking_patch 2 \<lparr>upd_user = None, upd_flight = None\<rparr> demo =
       (\<lparr>status = 204, content = No_content\<rparr>, demo)"
proof -
  have c: "connected demo" by (rule demo_connected)
  have b: "2 \<in> booking_id ` set (bookings demo)" by (simp add: demo_def)
  from c b booking_patch_empty_body [OF c b] show ?thesis by simp
qed

section \<open>Registration\<close>

text \<open>
  C6. While the storage answers, a registration request appends one User to the stored
  users: it has a fresh identifier, the name and the email of the request, and as password
  the value that \<^verbatim>\<open>bcrypt.hash\<close> returns for the password of the request with work
  factor 5, not the password itself. The response is 201 and carries that same record,
  hash included.
\<close>

theorem user_register_stores_hash:
  assumes "connected s"
  shows "(let newUser = \<lparr>user_id = next_oid s, name = reg_name req, email = reg_email req,
                         password = bcrypt_hash bc (reg_password req) 5\<rparr>
          in user_register bc req s =
               (\<lparr>status = 201, content = User_saved ''User saved'' newUser\<rparr>,
                s\<lparr>next_oid := Suc (next_oid s), users := users s @ [newUser]\<rparr>))"
  using assms by (simp add: user_register_def new_oid_def save_new_def Let_def)

theorem user_register_stores_hash_witness:
  "connected demo
   \<and> user_register toy_bcrypt
        \<lparr>reg_name = ''Bob'', reg_email = ''bob@example.com'', reg_password = ''pw''\<rparr> demo =
       (\<lparr>status = 201,
         content = User_saved ''User saved''
           \<lparr>user_id = 4, name = ''Bob'', email = ''bob@example.com'', password = ''$2b$wp''\<rparr>\<rparr>,
        demo\<lparr>next_oid := 5,
             users := [alice, \<lparr>user_id = 4, name = ''Bob'', email = ''bob@example.com'',
                               password = ''$2b$wp''\<rparr>]\<rparr>)"
  using demo_connected
    user_register_stores_hash [OF demo_connected, of
      "\<lparr>reg_name = ''Bob'', reg_email = ''bob@example.com'', reg_password = ''pw''\<rparr>" toy_bcrypt]
  by (simp add: demo_users demo_next_oid toy_bcrypt_def Let_def)

text \<open>
  Registering and then logging in with the same credentials answers 200 with a token for
  the new user, when no stored user had the email before and the library verifies a
  password against its own hash.
\<close>

lemma find_append_absent:
  "List.find P xs = None \<Longrightarrow> List.find P (xs @ ys) = List.find P ys"
  by (induction xs) (auto split: if_splits)

lemma register_then_login:
  assumes "connected s"
    and "reg_email req \<notin> email ` set (users s)"
    and "bcrypt_compare bc (reg_password req) (bcrypt_hash bc (reg_password req) 5)"
  shows "fst (user_login bc
                \<lparr>login_email = reg_email req, login_password = Some (reg_password req)\<rparr>
                (snd (user_register bc req s))) =
         \<lparr>status = 200,
          content = Logged_in ''User logged in'' (jwt_sign (next_oid s) ''secret'' ''1h'')\<rparr>"
proof -
  from assms(2) have "List.find (\<lambda>d. email d = reg_email req) (users s) = None"
    by (simp add: find_None_image)
  with assms(1,3) show ?thesis
    by (simp add: user_register_def new_oid_def save_new_def Let_def user_login_def
        Model_findOne_def find_append_absent compare_password_def)
qed

section \<open>Listing users\<close>

text \<open>
  C9. While the storage answers, the user listing answers 200 for every content of the
  store, and its body holds every stored User record as it is stored, in the stored order:
  the password field of each record in the body is the stored password value.
\<close>

theorem user_get_returns_records:
  assumes "connected s"
  shows "user_get s = (\<lparr>status = 200, content = Users (users s)\<rparr>, s)
       \<and> (\<forall>data. content (fst (user_get s)) = Users data \<longrightarrow>
            map password data = map password (users s))"
  using assms by (simp add: user_get_def Model_find_def)

theorem user_get_returns_records_witness:
  "connected demo
   \<and> user_get demo =
       (\<lparr>status = 200,
         content = Users [\<lparr>user_id = 0, name = ''Alice'', email = ''alice@example.com'',
                            password = ''$2b$terces''\<rparr>]\<rparr>, demo)"
  using demo_connected user_get_returns_records [OF demo_connected]
  by (simp add: demo_users alice_def)

section \<open>Bodies of the 500 responses\<close>

text \<open>
  Thirteen handlers share one \<^verbatim>\<open>catch\<close> branch: their 500 response is a message and
  nothing else.
\<close>

lemma sibling_internal_error_bodies:
  "status (fst (user_get s)) = 500 \<Longrightarrow> message_only (content (fst (user_get s)))"
  "status (fst (user_login bc lreq s)) = 500 \<Longrightarrow>
     message_only (content (fst (user_login bc lreq s)))"
  "status (fst (user_delete cast raw s)) = 500 \<Longrightarrow>
     message_only (content (fst (user_delete cast raw s)))"
  "status (fst (user_patch cast raw ureq s)) = 500 \<Longrightarrow>
     message_only (content (fst (user_patch cast raw ureq s)))"
  "status (fst (flight_get_all s)) = 500 \<Longrightarrow> message_only (content (fst (flight_get_all s)))"
  "status (fst (flight_post fd s)) = 500 \<Longrightarrow> message_only (content (fst (flight_post fd s)))"
  "status (fst (flight_get cast raw s)) = 500 \<Longrightarrow>
     message_only (content (fst (flight_get cast raw s)))"
  "status (fst (flight_patch cast raw freq s)) = 500 \<Longrightarrow>
     message_only (content (fst (flight_patch cast raw freq s)))"
  "status (fst (flight_delete cast raw s)) = 500 \<Longrightarrow>
     message_only (content (fst (flight_delete cast raw s)))"
  "status (fst (booking_dashboard s)) = 500 \<Longrightarrow>
     message_only (content (fst (booking_dashboard s)))"
  "status (fst (booking_post cast breq s)) = 500 \<Longrightarrow>
     message_only (content (fst (booking_post cast breq s)))"
  "status (fst (booking_patch i bupd s)) = 500 \<Longrightarrow>
     message_only (content (fst (booking_patch i bupd s)))"
  "status (fst (booking_delete cast raw s)) = 500 \<Longrightarrow>
     message_only (content (fst (booking_delete cast raw s)))"
  by (auto simp: user_get_def user_login_def user_delete_def user_patch_def flight_get_all_def
      flight_post_def flight_get_def flight_patch_def flight_delete_def booking_dashboard_def
      booking_post_def booking_patch_def booking_delete_def internal_error_def Let_def
      split: sum.splits option.splits prod.splits if_splits)

text \<open>The 500 response of registration is never of that shape.\<close>

lemma user_register_error_never_message_only:
  "status (fst (user_register bc req s)) = 500 \<Longrightarrow>
   \<not> message_only (content (fst (user_register bc req s)))"
  by (auto simp: user_register_def new_oid_def save_new_def Let_def split: if_splits)

text \<open>
  C7. A 500 response is to carry a body with a message field only, never the caught error.
  Registration breaks this: on a system whose storage does not answer, the register
  request of Bob is answered with status 500 and the body \<^verbatim>\<open>{ error: error }\<close>, which
  holds the caught error object and no message.
\<close>

theorem user_register_error_body:
  "user_register toy_bcrypt
      \<lparr>reg_name = ''Bob'', reg_email = ''bob@example.com'', reg_password = ''pw''\<rparr>
      (demo\<lparr>connected := False\<rparr>) =
     (\<lparr>status = 500, content = Error_object StorageError\<rparr>,
      demo\<lparr>connected := False, next_oid := 5\<rparr>)
   \<and> \<not> message_only (Error_object StorageError)"
  by (simp add: user_register_def new_oid_def save_new_def Let_def demo_def)

end
